theory Spec2Isabelle
  imports Complex_Main "HOL-Library.AList"
begin

section \<open>JavaScript values used by jschannel.ts\<close>

text \<open>
  The embedding follows \<^verbatim>\<open>src/jschannel.ts\<close>. Values that travel through the channel are
  trees: JSON data, function values of the embedding page, the stub closures the channel
  creates for callbacks, and \<^verbatim>\<open>Error\<close> instances. Objects are association lists in
  enumeration order with own enumerable properties only; numbers are the integers.
  A window handle and a channel instance are identified by a number. A thrown exception is
  the left summand of a result, and a state is returned as the exception leaves it. The
  debug output (\<^verbatim>\<open>debug\<close>, \<^verbatim>\<open>chanId\<close>) is left out, and the texts of the
  exceptions are shortened: an \<^verbatim>\<open>Error\<close> instance stringifies to \<^verbatim>\<open>{}\<close>, so its
  text never reaches a message.
\<close>

type_synonym win = nat
type_synonym chan = nat

datatype jsval =
    JUndefined
  | JNull
  | JBool bool
  | JNum int
  | JStr string
  | JArr "jsval list"
  | JObj "(string \<times> jsval) list"
  | JFun string
  | JStub int "string list" string
  | JErr string string

text \<open>
  \<open>JFun src\<close> is a function of the page, standing by its source text (what
  \<^verbatim>\<open>toString\<close> returns). \<open>JStub id callbacks i\<close> is the closure of lines 462-466,
  \<^verbatim>\<open>(params) => trans.invoke(i, params)\<close>, over the transaction made for request \<open>id\<close>
  with the declared \<open>callbacks\<close>. \<open>JErr name message\<close> is an \<^verbatim>\<open>Error\<close> instance.
\<close>

datatype jstype = TUndefined | TObject | TBoolean | TNumber | TString | TFunction

fun typeof :: "jsval \<Rightarrow> jstype" where
  "typeof JUndefined = TUndefined"
| "typeof JNull = TObject"
| "typeof (JBool b) = TBoolean"
| "typeof (JNum n) = TNumber"
| "typeof (JStr s) = TString"
| "typeof (JArr xs) = TObject"
| "typeof (JObj ps) = TObject"
| "typeof (JFun f) = TFunction"
| "typeof (JStub i cbs p) = TFunction"
| "typeof (JErr n m) = TObject"

fun truthy :: "jsval \<Rightarrow> bool" where
  "truthy JUndefined = False"
| "truthy JNull = False"
| "truthy (JBool b) = b"
| "truthy (JNum n) = (n \<noteq> 0)"
| "truthy (JStr s) = (s \<noteq> [])"
| "truthy (JArr xs) = True"
| "truthy (JObj ps) = True"
| "truthy (JFun f) = True"
| "truthy (JStub i cbs p) = True"
| "truthy (JErr n m) = True"

text \<open>\<^verbatim>\<open>s_isArray\<close> (lines 135-142).\<close>

fun s_isArray :: "jsval \<Rightarrow> bool" where
  "s_isArray (JArr xs) = True"
| "s_isArray v = False"

definition TypeError :: "string \<Rightarrow> jsval" where
  "TypeError m = JErr ''TypeError'' m"

definition Error :: "string \<Rightarrow> jsval" where
  "Error m = JErr ''Error'' m"

subsection \<open>Strings\<close>

text \<open>\<^verbatim>\<open>String.prototype.split\<close> with a non-empty separator string.\<close>

function split_from :: "string \<Rightarrow> string \<Rightarrow> string \<Rightarrow> string list" where
  "split_from sep cur [] = [cur]"
| "split_from sep cur (c # cs) =
     (if sep \<noteq> [] \<and> take (length sep) (c # cs) = sep
      then cur # split_from sep [] (drop (length sep) (c # cs))
      else split_from sep (cur @ [c]) cs)"
  by pat_completeness auto
termination
  by (relation "measure (\<lambda>(sep, cur, s). length s)") auto

definition js_split :: "string \<Rightarrow> string \<Rightarrow> string list" where
  "js_split sep s = split_from sep [] s"

text \<open>Decimal text of a number, as property keys of array indices and JSON numbers have it.\<close>

function string_of_nat :: "nat \<Rightarrow> string" where
  "string_of_nat n =
     (if n < 10 then [''0123456789'' ! n]
      else string_of_nat (n div 10) @ [''0123456789'' ! (n mod 10)])"
  by pat_completeness auto
termination
  by (relation "measure id") auto

declare string_of_nat.simps [simp del]

definition string_of_int :: "int \<Rightarrow> string" where
  "string_of_int i = (if i < 0 then CHR ''-'' # string_of_nat (nat (- i)) else string_of_nat (nat i))"

fun join_with :: "string \<Rightarrow> string list \<Rightarrow> string" where
  "join_with sep [] = []"
| "join_with sep [x] = x"
| "join_with sep (x # y # ys) = x @ sep @ join_with sep (y # ys)"

subsection \<open>Property access\<close>

text \<open>
  Reading \<^verbatim>\<open>v[k]\<close> on a value that is neither \<^verbatim>\<open>undefined\<close> nor \<^verbatim>\<open>null\<close>
  (on those the read throws, which the callers write out).
\<close>

fun get_prop :: "jsval \<Rightarrow> string \<Rightarrow> jsval" where
  "get_prop (JObj ps) k = (case map_of ps k of Some v \<Rightarrow> v | None \<Rightarrow> JUndefined)"
| "get_prop (JArr xs) k =
     (case find (\<lambda>n. string_of_nat n = k) [0..<length xs] of
        Some n \<Rightarrow> xs ! n
      | None \<Rightarrow> JUndefined)"
| "get_prop (JErr name msg) k =
     (if k = ''message'' then JStr msg else if k = ''name'' then JStr name else JUndefined)"
| "get_prop v k = JUndefined"

text \<open>
  Writing \<^verbatim>\<open>v[k] = x\<close> to an object or to an element of an array. A write to a
  primitive is dropped; a write to an array under another key is not kept, as it does not
  show in JSON.
\<close>

fun set_prop :: "jsval \<Rightarrow> string \<Rightarrow> jsval \<Rightarrow> jsval" where
  "set_prop (JObj ps) k x = JObj (AList.update k x ps)"
| "set_prop (JArr xs) k x =
     (case find (\<lambda>n. string_of_nat n = k) [0..<length xs] of
        Some n \<Rightarrow> JArr (xs[n := x])
      | None \<Rightarrow> JArr xs)"
| "set_prop v k x = v"

fun get_at :: "jsval \<Rightarrow> string list \<Rightarrow> jsval" where
  "get_at v [] = v"
| "get_at v (k # ks) = get_at (get_prop v k) ks"

fun set_at :: "jsval \<Rightarrow> string list \<Rightarrow> jsval \<Rightarrow> jsval" where
  "set_at v [] x = x"
| "set_at v (k # ks) x = set_prop v k (set_at (get_prop v k) ks x)"

subsection \<open>JSON.stringify and toString on these values\<close>

definition hex_digit :: "nat \<Rightarrow> char" where
  "hex_digit n = ''0123456789abcdef'' ! (n mod 16)"

definition quote_char :: "char \<Rightarrow> string" where
  "quote_char c =
     (if c = CHR 0x22 then [CHR 0x5C, CHR 0x22]
      else if c = CHR 0x5C then [CHR 0x5C, CHR 0x5C]
      else if c = CHR 0x08 then [CHR 0x5C, CHR ''b'']
      else if c = CHR 0x09 then [CHR 0x5C, CHR ''t'']
      else if c = CHR 0x0A then [CHR 0x5C, CHR ''n'']
      else if c = CHR 0x0C then [CHR 0x5C, CHR ''f'']
      else if c = CHR 0x0D then [CHR 0x5C, CHR ''r'']
      else if (of_char c :: nat) < 32
        then [CHR 0x5C, CHR ''u'', CHR ''0'', CHR ''0'',
              hex_digit (of_char c div 16), hex_digit (of_char c)]
      else [c])"

definition quote :: "string \<Rightarrow> string" where
  "quote s = CHR 0x22 # concat (map quote_char s) @ [CHR 0x22]"

text \<open>
  \<^verbatim>\<open>JSON.stringify\<close>: \<open>None\<close> is the result \<^verbatim>\<open>undefined\<close>. A function or
  \<^verbatim>\<open>undefined\<close> is \<^verbatim>\<open>null\<close> inside an array and is left out of an object; an
  \<^verbatim>\<open>Error\<close> instance has no enumerable property of its own.
\<close>

fun json_stringify :: "jsval \<Rightarrow> string option" where
  "json_stringify JUndefined = None"
| "json_stringify JNull = Some ''null''"
| "json_stringify (JBool b) = Some (if b then ''true'' else ''false'')"
| "json_stringify (JNum n) = Some (string_of_int n)"
| "json_stringify (JStr s) = Some (quote s)"
| "json_stringify (JArr xs) =
     Some (''['' @ join_with '','' (map (\<lambda>x. case json_stringify x of
                                               None \<Rightarrow> ''null''
                                             | Some s \<Rightarrow> s) xs) @ '']'')"
| "json_stringify (JObj ps) =
     Some (''{'' @ join_with '','' (concat (map (\<lambda>(k, v). case json_stringify v of
                                                        None \<Rightarrow> []
                                                      | Some s \<Rightarrow> [quote k @ '':'' @ s]) ps))
           @ ''}'')"
| "json_stringify (JFun f) = None"
| "json_stringify (JStub i cbs p) = None"
| "json_stringify (JErr n m) = Some ''{}''"

text \<open>
  \<^verbatim>\<open>e.toString()\<close>: on \<^verbatim>\<open>undefined\<close> and \<^verbatim>\<open>null\<close> the method lookup throws a
  \<^verbatim>\<open>TypeError\<close>.
\<close>

fun js_toString :: "jsval \<Rightarrow> jsval + string" where
  "js_toString JUndefined = Inl (TypeError ''Cannot read properties of undefined'')"
| "js_toString JNull = Inl (TypeError ''Cannot read properties of null'')"
| "js_toString (JBool b) = Inr (if b then ''true'' else ''false'')"
| "js_toString (JNum n) = Inr (string_of_int n)"
| "js_toString (JStr s) = Inr s"
| "js_toString (JArr xs) =
     Inr (join_with '','' (map (\<lambda>x. case js_toString x of Inl e \<Rightarrow> [] | Inr s \<Rightarrow> s) xs))"
| "js_toString (JObj ps) = Inr ''[object Object]''"
| "js_toString (JFun f) = Inr f"
| "js_toString (JStub i cbs p) = Inr ''(params) => { return trans.invoke(i, params); }''"
| "js_toString (JErr n m) = Inr (if m = [] then n else n @ '': '' @ m)"

section \<open>Process-wide state\<close>

subsection \<open>The transaction id seed (line 61)\<close>

text \<open>
  \<^verbatim>\<open>let s_curTranId = Math.floor(Math.random() * 1000001)\<close>, as a function of the
  value \<open>r\<close> that \<^verbatim>\<open>Math.random()\<close> returned (a number in \<open>[0, 1)\<close>).
\<close>

definition seed_curTranId :: "real \<Rightarrow> int" where
  "seed_curTranId r = \<lfloor>r * 1000001\<rfloor>"

subsection \<open>The table of bound channels (lines 69-133)\<close>

text \<open>
  \<^verbatim>\<open>s_boundChans\<close> maps an origin to a scope to an array of \<^verbatim>\<open>{win, handler}\<close>. The
  handler is the \<^verbatim>\<open>onMessage\<close> closure of a channel instance, named here by the
  instance. The outer object is an association list, as line 86 enumerates it.
\<close>

type_synonym binding = "win \<times> chan"
type_synonym boundChans = "(string \<times> (string \<rightharpoonup> binding list)) list"

fun hasWin :: "win \<Rightarrow> binding list \<Rightarrow> bool" where
  "hasWin win [] = False"
| "hasWin win (i # arr) = (if fst i = win then True else hasWin win arr)"

text \<open>The loop of lines 86-99, taken when the new origin is \<^verbatim>\<open>'*'\<close>.\<close>

fun scan_origins :: "win \<Rightarrow> string \<Rightarrow> boundChans \<Rightarrow> bool" where
  "scan_origins win scope [] = False"
| "scan_origins win scope ((k, tbl) # rest) =
     (if k = ''*'' then scan_origins win scope rest
      else (case tbl scope of
              Some arr \<Rightarrow> (if hasWin win arr then True else scan_origins win scope rest)
            | None \<Rightarrow> scan_origins win scope rest))"

definition bucket_hasWin :: "win \<Rightarrow> string \<Rightarrow> string \<Rightarrow> boundChans \<Rightarrow> bool" where
  "bucket_hasWin win k scope bc =
     (case map_of bc k of
        None \<Rightarrow> False
      | Some tbl \<Rightarrow> (case tbl scope of None \<Rightarrow> False | Some arr \<Rightarrow> hasWin win arr))"

definition chan_exists :: "win \<Rightarrow> string \<Rightarrow> string \<Rightarrow> boundChans \<Rightarrow> bool" where
  "chan_exists win origin scope bc =
     (if origin = ''*'' then scan_origins win scope bc
      else (if bucket_hasWin win ''*'' scope bc then True
            else bucket_hasWin win origin scope bc))"

definition s_addBoundChan ::
  "win \<Rightarrow> string \<Rightarrow> string \<Rightarrow> chan \<Rightarrow> boundChans \<Rightarrow> jsval + boundChans" where
  "s_addBoundChan win origin scope handler bc =
     (if chan_exists win origin scope bc
      then Inl (Error (''A channel is already bound to the same window which overlaps with origin ''
                       @ origin @ '' and has scope '' @ scope))
      else (let tbl = (case map_of bc origin of None \<Rightarrow> Map.empty | Some t \<Rightarrow> t);
                arr = (case tbl scope of None \<Rightarrow> [] | Some a \<Rightarrow> a)
            in Inr (AList.update origin (tbl(scope \<mapsto> arr @ [(win, handler)])) bc)))"

text \<open>
  \<^verbatim>\<open>s_removeBoundChan\<close> (lines 122-133). The origin may be \<^verbatim>\<open>null\<close> (a destroyed
  channel's \<^verbatim>\<open>cfg.origin\<close>), which as a property key is the string \<^verbatim>\<open>null\<close>. Reading a
  scope of a missing origin, or calling \<^verbatim>\<open>forEach\<close> on a missing array, throws.
\<close>

definition origin_key :: "string option \<Rightarrow> string" where
  "origin_key origin = (case origin of None \<Rightarrow> ''null'' | Some k \<Rightarrow> k)"

definition s_removeBoundChan ::
  "win \<Rightarrow> string option \<Rightarrow> string \<Rightarrow> boundChans \<Rightarrow> jsval + boundChans" where
  "s_removeBoundChan win origin scope bc =
     (case map_of bc (origin_key origin) of
        None \<Rightarrow> Inl (TypeError ''Cannot read properties of undefined'')
      | Some tbl \<Rightarrow>
          (case tbl scope of
             None \<Rightarrow> Inl (TypeError ''Cannot read properties of undefined (reading forEach)'')
           | Some arr \<Rightarrow>
               (let arr' = filter (\<lambda>item. fst item \<noteq> win) arr
                in Inr (AList.update (origin_key origin)
                          (if arr' = [] then tbl(scope := None) else tbl(scope \<mapsto> arr')) bc))))"

subsection \<open>Messages, observable events and channel instances\<close>

text \<open>
  A parsed message \<^verbatim>\<open>m\<close> with the fields of the five message kinds (lines 16-37); an
  absent field is \<open>None\<close> or \<^verbatim>\<open>undefined\<close>. Ids are integers, callback lists are
  lists of strings.
\<close>

record msg =
  m_id :: "int option"
  m_method :: "string option"
  m_params :: jsval
  m_callbacks :: "string list option"
  m_callback :: "string option"
  m_error :: jsval
  m_message :: jsval
  m_result :: jsval

definition empty_msg :: msg where
  "empty_msg = \<lparr>m_id = None, m_method = None, m_params = JUndefined, m_callbacks = None,
                 m_callback = None, m_error = JUndefined, m_message = JUndefined,
                 m_result = JUndefined\<rparr>"

text \<open>
  What the page can observe of a run, in order: a string handed to the remote window's
  \<^verbatim>\<open>postMessage\<close> (\<open>Posted\<close>, line 588), and each call of a function the page supplied:
  the observers, a bound method handler, the functions of a \<^verbatim>\<open>call\<close>.
\<close>

datatype event =
    Posted win "string option" msg
  | PostObserved "string option" msg
  | GotObserved string msg
  | HandlerCalled chan string jsval
  | CallbackCalled chan int string jsval jsval
  | SuccessCalled chan int jsval
  | ErrorCalled chan int jsval jsval
  | ReadyObserved chan

text \<open>
  A bound method is either the channel's own \<^verbatim>\<open>onReady\<close> or a handler of the page. A
  page handler is given by what it does with its transaction before it returns or throws:
  \<^verbatim>\<open>trans.delayReturn(b)\<close>, \<^verbatim>\<open>trans.complete(v)\<close>, \<^verbatim>\<open>trans.error(e, m)\<close>,
  \<^verbatim>\<open>trans.invoke(name, v)\<close>, or a call \<^verbatim>\<open>params.<path>(v)\<close> of a value inside its
  params.
\<close>

datatype action =
    DelayReturn bool
  | Complete jsval
  | ErrorOut jsval jsval
  | Invoke string jsval
  | CallParam "string list" jsval

datatype outcome = Return jsval | Raise jsval

datatype handler = OnReady | User "action list" outcome

record config =
  cfg_window :: win
  cfg_origin :: "string option"
  cfg_scope :: "string option"
  cfg_child :: bool
  cfg_gotMessageObserver :: bool
  cfg_postMessageObserver :: bool
  cfg_onReady :: bool

text \<open>An entry of \<^verbatim>\<open>outTbl\<close> (line 703): \<^verbatim>\<open>{callbacks, error, success}\<close>.\<close>

record outreq =
  o_callbacks :: "(string \<times> jsval) list"
  o_error :: jsval
  o_success :: jsval

text \<open>The private variables of one \<^verbatim>\<open>build\<close> (lines 341-349).\<close>

record chanst =
  cfg :: config
  regTbl :: "string \<rightharpoonup> handler"
  outTbl :: "int \<rightharpoonup> outreq"
  inTbl :: "int set"
  ready :: bool
  pendingQueue :: "msg list"

datatype timer =
    TransactionTimeout chan int jsval string
  | ReadyPing chan

text \<open>
  The state of the page: the module's variables (\<^verbatim>\<open>s_curTranId\<close>, \<^verbatim>\<open>s_boundChans\<close>,
  \<^verbatim>\<open>s_transIds\<close>), whether \<^verbatim>\<open>s_onMessage\<close> is attached to the window's message event,
  the channel instances built so far, the timers set and the events so far.
\<close>

record pstate =
  s_curTranId :: int
  s_boundChans :: boundChans
  s_transIds :: "int \<rightharpoonup> chan"
  listening :: bool
  chans :: "chan \<Rightarrow> chanst"
  nchans :: nat
  timers :: "timer list"
  trace :: "event list"

definition this_window :: win where
  "this_window = 0"

definition unbuilt :: chanst where
  "unbuilt = \<lparr>cfg = \<lparr>cfg_window = this_window, cfg_origin = None, cfg_scope = None,
                      cfg_child = False, cfg_gotMessageObserver = False,
                      cfg_postMessageObserver = False, cfg_onReady = False\<rparr>,
              regTbl = Map.empty, outTbl = Map.empty, inTbl = {}, ready = False,
              pendingQueue = []\<rparr>"

text \<open>
  The page after the module has loaded (lines 61, 69, 148, 224-228): the listener is
  attached once, here.
\<close>

definition init :: "real \<Rightarrow> pstate" where
  "init r = \<lparr>s_curTranId = seed_curTranId r, s_boundChans = [], s_transIds = Map.empty,
             listening = True, chans = (\<lambda>c. unbuilt), nchans = 0, timers = [], trace = []\<rparr>"

definition upd_chan :: "chan \<Rightarrow> (chanst \<Rightarrow> chanst) \<Rightarrow> pstate \<Rightarrow> pstate" where
  "upd_chan c f st = st\<lparr>chans := (chans st)(c := f (chans st c))\<rparr>"

definition emit :: "event \<Rightarrow> pstate \<Rightarrow> pstate" where
  "emit e st = st\<lparr>trace := trace st @ [e]\<rparr>"

section \<open>A channel instance\<close>

text \<open>\<^verbatim>\<open>scopeMethod\<close> (lines 560-565).\<close>

definition scopeMethod :: "config \<Rightarrow> string \<Rightarrow> string" where
  "scopeMethod cf m =
     (case cfg_scope cf of
        Some sc \<Rightarrow> (if sc \<noteq> [] then sc @ ''::'' @ m else m)
      | None \<Rightarrow> m)"

definition scope_or_empty :: "config \<Rightarrow> string" where
  "scope_or_empty cf = (case cfg_scope cf of Some sc \<Rightarrow> sc | None \<Rightarrow> [])"

text \<open>
  \<^verbatim>\<open>postMessage\<close> (lines 569-590). A message object is never falsy, so the guard of line
  570 does not fire; the debug output is left out. The observer's own effects are outside
  the model, and what it throws is caught.
\<close>

definition postMessage :: "chan \<Rightarrow> msg \<Rightarrow> bool \<Rightarrow> pstate \<Rightarrow> pstate" where
  "postMessage c msg force st =
     (let ch = chans st c in
      if \<not> force \<and> \<not> ready ch
      then upd_chan c (\<lambda>ch. ch\<lparr>pendingQueue := pendingQueue ch @ [msg]\<rparr>) st
      else (let st1 = (if cfg_postMessageObserver (cfg ch)
                       then emit (PostObserved (cfg_origin (cfg ch)) msg) st else st)
            in emit (Posted (cfg_window (cfg ch)) (cfg_origin (cfg ch)) msg) st1))"

subsection \<open>Transactions (lines 351-411)\<close>

text \<open>
  The object \<^verbatim>\<open>createTransaction\<close> returns closes over \<^verbatim>\<open>id\<close>, \<^verbatim>\<open>callbacks\<close> and
  the two flags; the flags are its state.
\<close>

record trans =
  t_id :: int
  t_origin :: string
  t_callbacks :: "string list"
  shouldDelayReturn :: bool
  completed :: bool

definition createTransaction :: "int \<Rightarrow> string \<Rightarrow> string list \<Rightarrow> trans" where
  "createTransaction tid origin callbacks =
     \<lparr>t_id = tid, t_origin = origin, t_callbacks = callbacks,
      shouldDelayReturn = False, completed = False\<rparr>"

definition trans_invoke ::
  "chan \<Rightarrow> int \<Rightarrow> string list \<Rightarrow> string \<Rightarrow> jsval \<Rightarrow> pstate \<Rightarrow> (jsval + unit) \<times> pstate" where
  "trans_invoke c tid callbacks cbName v st =
     (if tid \<notin> inTbl (chans st c)
      then (Inl (Error ''attempting to invoke a callback of a nonexistent transaction''), st)
      else if cbName \<notin> set callbacks
      then (Inl (Error ''request supports no such callback''), st)
      else (Inr (), postMessage c (empty_msg\<lparr>m_id := Some tid, m_callback := Some cbName,
                                               m_params := v\<rparr>) False st))"

definition trans_error ::
  "chan \<Rightarrow> trans \<Rightarrow> jsval \<Rightarrow> jsval \<Rightarrow> pstate \<Rightarrow> (jsval + unit) \<times> trans \<times> pstate" where
  "trans_error c t error message st =
     (let t' = t\<lparr>completed := True\<rparr> in
      if t_id t \<notin> inTbl (chans st c)
      then (Inl (Error ''error called for nonexistent message''), t', st)
      else (Inr (), t',
            postMessage c (empty_msg\<lparr>m_id := Some (t_id t), m_error := error,
                                      m_message := message\<rparr>) False
              (upd_chan c (\<lambda>ch. ch\<lparr>inTbl := inTbl ch - {t_id t}\<rparr>) st)))"

definition trans_complete ::
  "chan \<Rightarrow> trans \<Rightarrow> jsval \<Rightarrow> pstate \<Rightarrow> (jsval + unit) \<times> trans \<times> pstate" where
  "trans_complete c t v st =
     (let t' = t\<lparr>completed := True\<rparr> in
      if t_id t \<notin> inTbl (chans st c)
      then (Inl (Error ''complete called for nonexistent message''), t', st)
      else (Inr (), t',
            postMessage c (empty_msg\<lparr>m_id := Some (t_id t), m_result := v\<rparr>) False
              (upd_chan c (\<lambda>ch. ch\<lparr>inTbl := inTbl ch - {t_id t}\<rparr>) st)))"

subsection \<open>bind, unbind, notify and the ready handshake (lines 592-647, 711-721)\<close>

type_synonym 'a result = "(jsval + 'a) \<times> pstate"

text \<open>The check \<^verbatim>\<open>!x || typeof x !== 'string'\<close> passes exactly for a non-empty string.\<close>

fun nonempty_string :: "jsval \<Rightarrow> string option" where
  "nonempty_string (JStr s) = (if s = [] then None else Some s)"
| "nonempty_string v = None"

definition unbind :: "chan \<Rightarrow> string \<Rightarrow> pstate \<Rightarrow> bool \<times> pstate" where
  "unbind c method st =
     (case regTbl (chans st c) method of
        Some h \<Rightarrow> (True, upd_chan c (\<lambda>ch. ch\<lparr>regTbl := (regTbl ch)(method := None)\<rparr>) st)
      | None \<Rightarrow> (False, st))"

definition bind :: "chan \<Rightarrow> jsval \<Rightarrow> handler \<Rightarrow> pstate \<Rightarrow> unit result" where
  "bind c method cb st =
     (case nonempty_string method of
        None \<Rightarrow> (Inl (Error ''method argument to bind must be string''), st)
      | Some name \<Rightarrow>
          (case regTbl (chans st c) name of
             Some h \<Rightarrow> (Inl (Error (''method '' @ name @ '' is already bound!'')), st)
           | None \<Rightarrow> (Inr (), upd_chan c (\<lambda>ch. ch\<lparr>regTbl := (regTbl ch)(name \<mapsto> cb)\<rparr>) st)))"

definition notify :: "chan \<Rightarrow> jsval \<Rightarrow> jsval \<Rightarrow> pstate \<Rightarrow> unit result" where
  "notify c method params st =
     (case nonempty_string method of
        None \<Rightarrow> (Inl (Error ''method argument to notify must be string''), st)
      | Some name \<Rightarrow>
          (Inr (), postMessage c (empty_msg\<lparr>m_method := Some (scopeMethod (cfg (chans st c)) name),
                                             m_params := params\<rparr>) False st))"

text \<open>
  The flush loop of lines 613-615, \<^verbatim>\<open>while (pendingQueue.length) postMessage(pendingQueue.pop())\<close>.
  On a channel that is not ready \<^verbatim>\<open>postMessage\<close> puts the message back and the loop does
  not end: the result \<open>None\<close>.
\<close>

partial_function (option) flush_queue :: "chan \<Rightarrow> pstate \<Rightarrow> pstate option" where
  "flush_queue c st =
     (if pendingQueue (chans st c) = [] then Some st
      else flush_queue c
             (postMessage c (last (pendingQueue (chans st c))) False
                (upd_chan c (\<lambda>ch. ch\<lparr>pendingQueue := butlast (pendingQueue ch)\<rparr>) st)))"

declare flush_queue.simps [code]

text \<open>
  \<^verbatim>\<open>onReady\<close> (lines 592-621); the suffix put on \<^verbatim>\<open>chanId\<close> only shows in debug output
  and is left out.
\<close>

definition onReady :: "chan \<Rightarrow> jsval \<Rightarrow> pstate \<Rightarrow> unit result option" where
  "onReady c type st =
     (if ready (chans st c)
      then Some (Inl (Error ''received ready message while in ready state.  help!''), st)
      else (let st1 = snd (unbind c ''__ready'' st);
                st2 = upd_chan c (\<lambda>ch. ch\<lparr>ready := True\<rparr>) st1;
                r3 = (if type = JStr ''ping''
                      then notify c (JStr ''__ready'') (JStr ''pong'') st2
                      else (Inr (), st2))
            in case r3 of
                 (Inl e, st3) \<Rightarrow> Some (Inl e, st3)
               | (Inr u, st3) \<Rightarrow>
                   (case flush_queue c st3 of
                      None \<Rightarrow> None
                    | Some st4 \<Rightarrow>
                        Some (Inr (), if cfg_onReady (cfg (chans st4 c))
                                      then emit (ReadyObserved c) st4 else st4))))"

subsection \<open>Callback stubs on the receiving side (lines 449-468)\<close>

text \<open>
  Line 454 calls \<^verbatim>\<open>pathItems.findIndex(j)\<close> with \<^verbatim>\<open>j\<close> an element of
  \<^verbatim>\<open>i.split('/')\<close>, a string. \<^verbatim>\<open>Array.prototype.findIndex\<close> takes a predicate function
  and throws a \<^verbatim>\<open>TypeError\<close> when its argument is not callable, before it looks at any
  element; a string is not callable.
\<close>

definition findIndex_of_string :: "string list \<Rightarrow> string \<Rightarrow> jsval + int" where
  "findIndex_of_string arr predicate = Inl (TypeError (predicate @ '' is not a function''))"

text \<open>
  The inner loop of lines 453-461. The variable \<^verbatim>\<open>object\<close> points into \<^verbatim>\<open>m.params\<close>;
  it is kept as the path from the root, so that the writes of line 458 land in
  \<^verbatim>\<open>m.params\<close>.
\<close>

fun walk_path ::
  "string list \<Rightarrow> string list \<Rightarrow> string list \<Rightarrow> jsval \<Rightarrow> jsval + (string list \<times> jsval)" where
  "walk_path pathItems [] object params = Inr (object, params)"
| "walk_path pathItems (j # js) object params =
     (case findIndex_of_string pathItems j of
        Inl e \<Rightarrow> Inl e
      | Inr idx \<Rightarrow>
          (if idx = int (length pathItems) - 1 then walk_path pathItems js object params
           else if get_at params object = JUndefined \<or> get_at params object = JNull
           then Inl (TypeError ''Cannot read properties of undefined'')
           else (let params' = (if typeof (get_prop (get_at params object) j) \<noteq> TObject
                                then set_at params (object @ [j]) (JObj [])
                                else params)
                 in walk_path pathItems js (object @ [j]) params')))"

definition install_stub :: "int \<Rightarrow> string list \<Rightarrow> string \<Rightarrow> jsval \<Rightarrow> jsval + jsval" where
  "install_stub tid callbacks i params =
     (let pathItems = js_split ''/'' i in
      case walk_path pathItems pathItems [] params of
        Inl e \<Rightarrow> Inl e
      | Inr (object, params') \<Rightarrow>
          (if get_at params' object = JUndefined \<or> get_at params' object = JNull
           then Inl (TypeError ''Cannot set properties of undefined'')
           else Inr (set_at params' (object @ [last pathItems]) (JStub tid callbacks i))))"

text \<open>The loop of line 450 over \<^verbatim>\<open>m.callbacks\<close>.\<close>

fun install_stubs :: "int \<Rightarrow> string list \<Rightarrow> string list \<Rightarrow> jsval \<Rightarrow> jsval + jsval" where
  "install_stubs tid callbacks [] params = Inr params"
| "install_stubs tid callbacks (i # rest) params =
     (case install_stub tid callbacks i params of
        Inl e \<Rightarrow> Inl e
      | Inr params' \<Rightarrow> install_stubs tid callbacks rest params')"

subsection \<open>Normalising what a handler threw (lines 473-512)\<close>

text \<open>
  Lines 475-498: the code, the message, and the value \<^verbatim>\<open>e\<close> that line 503 stringifies
  (line 495 replaces it). Line 488 reads \<^verbatim>\<open>e.error\<close>, which throws when \<^verbatim>\<open>e\<close> is
  \<^verbatim>\<open>null\<close>.
\<close>

fun arr_length :: "jsval \<Rightarrow> nat" where
  "arr_length (JArr xs) = length xs"
| "arr_length v = 0"

definition classify_error :: "jsval \<Rightarrow> jsval + (jsval \<times> jsval \<times> jsval)" where
  "classify_error e =
     (if typeof e = TString then Inr (JStr ''runtime_error'', e, e)
      else if typeof e = TObject then
        (if truthy e \<and> s_isArray e \<and> arr_length e = 2
         then Inr (get_prop e ''0'', get_prop e ''1'', e)
         else if e = JNull
         then Inl (TypeError ''Cannot read properties of null (reading error)'')
         else if typeof (get_prop e ''error'') = TString
         then (if \<not> truthy (get_prop e ''message'')
               then Inr (get_prop e ''error'', JStr [], e)
               else if typeof (get_prop e ''message'') = TString
               then Inr (get_prop e ''error'', get_prop e ''message'', e)
               else Inr (get_prop e ''error'', JNull, get_prop e ''message''))
         else Inr (JStr ''runtime_error'', JNull, e))
      else Inr (JStr ''runtime_error'', JNull, e))"

text \<open>
  Lines 501-512, taken when \<^verbatim>\<open>message\<close> is still \<^verbatim>\<open>null\<close>. \<^verbatim>\<open>JSON.stringify\<close> does not
  throw on a tree; when it gives \<^verbatim>\<open>undefined\<close>, \<^verbatim>\<open>e.toString()\<close> is tried, and tried
  again by the \<^verbatim>\<open>catch\<close> of line 509 when it throws.
\<close>

definition try_harder :: "jsval \<Rightarrow> jsval + jsval" where
  "try_harder e =
     (case json_stringify e of
        Some s \<Rightarrow> Inr (JStr s)
      | None \<Rightarrow>
          (case js_toString e of
             Inr s \<Rightarrow> Inr (JStr s)
           | Inl e2 \<Rightarrow> (case js_toString e of Inr s \<Rightarrow> Inr (JStr s) | Inl e3 \<Rightarrow> Inl e3)))"

definition normalize_error :: "jsval \<Rightarrow> jsval + (jsval \<times> jsval)" where
  "normalize_error e =
     (case classify_error e of
        Inl x \<Rightarrow> Inl x
      | Inr (error, message, e') \<Rightarrow>
          (if message = JNull
           then (case try_harder e' of Inl x \<Rightarrow> Inl x | Inr message' \<Rightarrow> Inr (error, message'))
           else Inr (error, message)))"

subsection \<open>Calling a bound method\<close>

text \<open>
  One step of a page handler that was called for a request. A call of a value inside
  \<^verbatim>\<open>params\<close> runs the stub found there; anything else found there is not callable.
\<close>

fun run_action ::
  "chan \<Rightarrow> jsval \<Rightarrow> action \<Rightarrow> trans \<Rightarrow> pstate \<Rightarrow> (jsval + unit) \<times> trans \<times> pstate" where
  "run_action c params (DelayReturn b) t st = (Inr (), t\<lparr>shouldDelayReturn := b\<rparr>, st)"
| "run_action c params (Complete v) t st = trans_complete c t v st"
| "run_action c params (ErrorOut e m) t st = trans_error c t e m st"
| "run_action c params (Invoke name v) t st =
     (case trans_invoke c (t_id t) (t_callbacks t) name v st of (r, st') \<Rightarrow> (r, t, st'))"
| "run_action c params (CallParam path v) t st =
     (case get_at params path of
        JStub tid cbs i \<Rightarrow> (case trans_invoke c tid cbs i v st of (r, st') \<Rightarrow> (r, t, st'))
      | _ \<Rightarrow> (Inl (TypeError ''not a function''), t, st))"

fun run_actions ::
  "chan \<Rightarrow> jsval \<Rightarrow> action list \<Rightarrow> trans \<Rightarrow> pstate \<Rightarrow> (jsval + unit) \<times> trans \<times> pstate" where
  "run_actions c params [] t st = (Inr (), t, st)"
| "run_actions c params (a # rest) t st =
     (case run_action c params a t st of
        (Inl e, t', st') \<Rightarrow> (Inl e, t', st')
      | (Inr u, t', st') \<Rightarrow> run_actions c params rest t' st')"

text \<open>\<^verbatim>\<open>regTbl[method](trans, m.params)\<close> of line 469: the value returned or thrown.\<close>

definition call_handler ::
  "chan \<Rightarrow> string \<Rightarrow> handler \<Rightarrow> trans \<Rightarrow> jsval \<Rightarrow> pstate
     \<Rightarrow> ((jsval + jsval) \<times> trans \<times> pstate) option" where
  "call_handler c method h t params st =
     (case h of
        OnReady \<Rightarrow>
          (case onReady c params st of
             None \<Rightarrow> None
           | Some (Inl e, st') \<Rightarrow> Some (Inl e, t, st')
           | Some (Inr u, st') \<Rightarrow> Some (Inr JUndefined, t, st'))
      | User acts out \<Rightarrow>
          (case run_actions c params acts t (emit (HandlerCalled c method params) st) of
             (Inl e, t', st') \<Rightarrow> Some (Inl e, t', st')
           | (Inr u, t', st') \<Rightarrow>
               (case out of
                  Return v \<Rightarrow> Some (Inr v, t', st')
                | Raise e \<Rightarrow> Some (Inl e, t', st'))))"

text \<open>
  \<^verbatim>\<open>regTbl[method]({ origin }, m.params)\<close> of line 549: the transaction of a
  notification has the origin only, so every use of it as a transaction throws, and so
  does a call into the params, which are plain JSON.
\<close>

definition call_notification_handler ::
  "chan \<Rightarrow> string \<Rightarrow> handler \<Rightarrow> jsval \<Rightarrow> pstate \<Rightarrow> unit result option" where
  "call_notification_handler c method h params st =
     (case h of
        OnReady \<Rightarrow> onReady c params st
      | User acts out \<Rightarrow>
          (if acts \<noteq> []
           then Some (Inl (TypeError ''not a function''), emit (HandlerCalled c method params) st)
           else (case out of
                   Return v \<Rightarrow> Some (Inr (), emit (HandlerCalled c method params) st)
                 | Raise e \<Rightarrow> Some (Inl e, emit (HandlerCalled c method params) st))))"

subsection \<open>The channel's onMessage (lines 426-554)\<close>

text \<open>
  The request branch, lines 443-516, for a method that has a handler \<open>h\<close>.
  \<open>callbacks_of\<close> is \<^verbatim>\<open>m.callbacks ? m.callbacks : []\<close>; the loop of line 450 runs
  over the same list (the guard of line 449 only skips an empty one).
\<close>

definition callbacks_of :: "msg \<Rightarrow> string list" where
  "callbacks_of m = (case m_callbacks m of Some l \<Rightarrow> l | None \<Rightarrow> [])"

definition handle_request ::
  "chan \<Rightarrow> string \<Rightarrow> string \<Rightarrow> msg \<Rightarrow> int \<Rightarrow> handler \<Rightarrow> pstate \<Rightarrow> unit result option" where
  "handle_request c origin method m tid h st =
     (let cbs = callbacks_of m;
          t0 = createTransaction tid origin cbs;
          st1 = upd_chan c (\<lambda>ch. ch\<lparr>inTbl := insert tid (inTbl ch)\<rparr>) st;
          attempt =
            (case install_stubs tid cbs cbs (m_params m) of
               Inl e \<Rightarrow> Some (Inl e, t0, st1)
             | Inr params \<Rightarrow>
                 (case call_handler c method h t0 params st1 of
                    None \<Rightarrow> None
                  | Some (Inl e, t, st2) \<Rightarrow> Some (Inl e, t, st2)
                  | Some (Inr resp, t, st2) \<Rightarrow>
                      (if \<not> shouldDelayReturn t \<and> \<not> completed t
                       then Some (trans_complete c t resp st2)
                       else Some (Inr (), t, st2))))
      in case attempt of
           None \<Rightarrow> None
         | Some (Inr u, t, st') \<Rightarrow> Some (Inr (), st')
         | Some (Inl e, t, st') \<Rightarrow>
             (case normalize_error e of
                Inl x \<Rightarrow> Some (Inl x, st')
              | Inr (error, message) \<Rightarrow>
                  (case trans_error c t error message st' of (r, t', st'') \<Rightarrow> Some (r, st''))))"

text \<open>Lines 517-523: a callback invocation for one of this channel's calls.\<close>

definition handle_callback :: "chan \<Rightarrow> msg \<Rightarrow> int \<Rightarrow> string \<Rightarrow> pstate \<Rightarrow> pstate" where
  "handle_callback c m tid cb st =
     (case outTbl (chans st c) tid of
        None \<Rightarrow> st
      | Some r \<Rightarrow>
          (case map_of (o_callbacks r) cb of
             None \<Rightarrow> st
           | Some f \<Rightarrow> emit (CallbackCalled c tid cb f (m_params m)) st))"

text \<open>
  Lines 524-543: a response or an error response. Calling \<^verbatim>\<open>error\<close> when the call gave
  none throws, before the two deletions.
\<close>

definition handle_response :: "chan \<Rightarrow> msg \<Rightarrow> int \<Rightarrow> pstate \<Rightarrow> unit result" where
  "handle_response c m tid st =
     (case outTbl (chans st c) tid of
        None \<Rightarrow> (Inr (), st)
      | Some r \<Rightarrow>
          (if truthy (m_error m) \<and> typeof (o_error r) \<noteq> TFunction
           then (Inl (TypeError ''outTbl[m.id].error is not a function''), st)
           else (let st1 = (if truthy (m_error m)
                            then emit (ErrorCalled c tid (m_error m) (m_message m)) st
                            else emit (SuccessCalled c tid (m_result m)) st)
                 in (Inr (), (upd_chan c (\<lambda>ch. ch\<lparr>outTbl := (outTbl ch)(tid := None)\<rparr>) st1)
                                \<lparr>s_transIds := (s_transIds st1)(tid := None)\<rparr>))))"

text \<open>A field that is present and truthy: a non-zero id, a non-empty string.\<close>

definition truthy_int :: "int option \<Rightarrow> int option" where
  "truthy_int i = (case i of Some n \<Rightarrow> (if n \<noteq> 0 then Some n else None) | None \<Rightarrow> None)"

definition truthy_str :: "string option \<Rightarrow> string option" where
  "truthy_str s = (case s of Some x \<Rightarrow> (if x \<noteq> [] then Some x else None) | None \<Rightarrow> None)"

text \<open>
  \<open>got_message\<close> is the observer call of lines 428-438 (what the observer throws is
  caught). Then the four branches of lines 441, 517, 524 and 544: \<^verbatim>\<open>m.id && method\<close>,
  \<^verbatim>\<open>m.id && m.callback\<close>, \<^verbatim>\<open>m.id\<close>, \<^verbatim>\<open>method\<close>.
\<close>

definition got_message :: "chan \<Rightarrow> string \<Rightarrow> msg \<Rightarrow> pstate \<Rightarrow> pstate" where
  "got_message c origin m st =
     (if cfg_gotMessageObserver (cfg (chans st c)) then emit (GotObserved origin m) st else st)"

definition onMessage ::
  "chan \<Rightarrow> string \<Rightarrow> string option \<Rightarrow> msg \<Rightarrow> pstate \<Rightarrow> unit result option" where
  "onMessage c origin method m st =
     (let st0 = got_message c origin m st
      in case truthy_int (m_id m) of
           Some tid \<Rightarrow>
             (case truthy_str method of
                Some meth \<Rightarrow>
                  (case regTbl (chans st0 c) meth of
                     Some h \<Rightarrow> handle_request c origin meth m tid h st0
                   | None \<Rightarrow> Some (Inr (), st0))
              | None \<Rightarrow>
                  (case truthy_str (m_callback m) of
                     Some cb \<Rightarrow> Some (Inr (), handle_callback c m tid cb st0)
                   | None \<Rightarrow> Some (handle_response c m tid st0)))
         | None \<Rightarrow>
             (case truthy_str method of
                Some meth \<Rightarrow>
                  (case regTbl (chans st0 c) meth of
                     Some h \<Rightarrow> call_notification_handler c meth h (m_params m) st0
                   | None \<Rightarrow> Some (Inr (), st0))
              | None \<Rightarrow> Some (Inr (), st0)))"

subsection \<open>call and its pruneFunctions (lines 648-710)\<close>

text \<open>
  \<^verbatim>\<open>seen\<close> holds the values visited, compared by identity (\<^verbatim>\<open>indexOf\<close>). In a tree
  every object is met at one place only, so an object stands by the keys that lead to it;
  \<^verbatim>\<open>null\<close> is the same value wherever it is met.
\<close>

datatype ref = RNull | RNode "string list"

definition ref_of :: "string list \<Rightarrow> jsval \<Rightarrow> ref" where
  "ref_of addr v = (if v = JNull then RNull else RNode addr)"

record prune_st =
  p_callbacks :: "(string \<times> jsval) list"
  p_callbackNames :: "string list"
  p_seen :: "ref list"

definition new_path :: "string \<Rightarrow> string \<Rightarrow> string" where
  "new_path path k = path @ (if path \<noteq> [] then ''/'' else []) @ k"

definition record_callback :: "string \<Rightarrow> jsval \<Rightarrow> prune_st \<Rightarrow> prune_st" where
  "record_callback np f ps =
     ps\<lparr>p_callbacks := AList.update np f (p_callbacks ps),
        p_callbackNames := p_callbackNames ps @ [np]\<rparr>"

text \<open>
  \<^verbatim>\<open>pruneFunctions(path, obj1)\<close> returns the object as the in-place deletions leave it,
  also when it throws. \<open>prune_props\<close> is the \<^verbatim>\<open>for (const k in obj1)\<close> loop over an
  object's properties and \<open>prune_elems\<close> the same loop over an array's indices, where
  \<^verbatim>\<open>delete\<close> leaves a hole (it reads as \<^verbatim>\<open>undefined\<close>).
\<close>

fun pruneFunctions ::
      "string \<Rightarrow> string list \<Rightarrow> jsval \<Rightarrow> prune_st \<Rightarrow> (jsval + unit) \<times> jsval \<times> prune_st"
  and prune_props ::
      "string \<Rightarrow> string list \<Rightarrow> (string \<times> jsval) list \<Rightarrow> prune_st
         \<Rightarrow> (jsval + unit) \<times> (string \<times> jsval) list \<times> prune_st"
  and prune_elems ::
      "string \<Rightarrow> string list \<Rightarrow> nat \<Rightarrow> jsval list \<Rightarrow> prune_st
         \<Rightarrow> (jsval + unit) \<times> jsval list \<times> prune_st"
where
  "pruneFunctions path addr (JObj props) ps =
     (if ref_of addr (JObj props) \<in> set (p_seen ps)
      then (Inl (Error ''params cannot be a recursive data structure''), JObj props, ps)
      else (case prune_props path addr props
                   (ps\<lparr>p_seen := p_seen ps @ [ref_of addr (JObj props)]\<rparr>) of
              (r, props', ps') \<Rightarrow> (r, JObj props', ps')))"
| "pruneFunctions path addr (JArr xs) ps =
     (if ref_of addr (JArr xs) \<in> set (p_seen ps)
      then (Inl (Error ''params cannot be a recursive data structure''), JArr xs, ps)
      else (case prune_elems path addr 0 xs
                   (ps\<lparr>p_seen := p_seen ps @ [ref_of addr (JArr xs)]\<rparr>) of
              (r, xs', ps') \<Rightarrow> (r, JArr xs', ps')))"
| "pruneFunctions path addr v ps =
     (if ref_of addr v \<in> set (p_seen ps)
      then (Inl (Error ''params cannot be a recursive data structure''), v, ps)
      else (Inr (), v, ps\<lparr>p_seen := p_seen ps @ [ref_of addr v]\<rparr>))"
| "prune_props path addr [] ps = (Inr (), [], ps)"
| "prune_props path addr ((k, v) # rest) ps =
     (if typeof v = TFunction
      then prune_props path addr rest (record_callback (new_path path k) v ps)
      else if typeof v = TObject
      then (case pruneFunctions (new_path path k) (addr @ [k]) v ps of
              (Inl e, v', ps') \<Rightarrow> (Inl e, (k, v') # rest, ps')
            | (Inr u, v', ps') \<Rightarrow>
                (case prune_props path addr rest ps' of
                   (r, rest', ps'') \<Rightarrow> (r, (k, v') # rest', ps'')))
      else (case prune_props path addr rest ps of
              (r, rest', ps') \<Rightarrow> (r, (k, v) # rest', ps')))"
| "prune_elems path addr n [] ps = (Inr (), [], ps)"
| "prune_elems path addr n (v # rest) ps =
     (if typeof v = TFunction
      then (case prune_elems path addr (Suc n) rest
                   (record_callback (new_path path (string_of_nat n)) v ps) of
              (r, rest', ps') \<Rightarrow> (r, JUndefined # rest', ps'))
      else if typeof v = TObject
      then (case pruneFunctions (new_path path (string_of_nat n)) (addr @ [string_of_nat n]) v ps of
              (Inl e, v', ps') \<Rightarrow> (Inl e, v' # rest, ps')
            | (Inr u, v', ps') \<Rightarrow>
                (case prune_elems path addr (Suc n) rest ps' of
                   (r, rest', ps'') \<Rightarrow> (r, v' # rest', ps'')))
      else (case prune_elems path addr (Suc n) rest ps of
              (r, rest', ps') \<Rightarrow> (r, v # rest', ps')))"

text \<open>The argument of \<^verbatim>\<open>call\<close>: \<^verbatim>\<open>{method, params, success, error, timeout}\<close>.\<close>

record call_args =
  c_method :: jsval
  c_params :: jsval
  c_success :: jsval
  c_error :: jsval
  c_timeout :: jsval

text \<open>
  \<^verbatim>\<open>call\<close> (lines 648-710). The second component of the result is the caller's own
  \<^verbatim>\<open>m.params\<close> object after the call, which \<^verbatim>\<open>pruneFunctions\<close> changes in place and
  which is the \<^verbatim>\<open>params\<close> of the message sent.
\<close>

definition call :: "chan \<Rightarrow> call_args \<Rightarrow> pstate \<Rightarrow> (jsval + unit) \<times> jsval \<times> pstate" where
  "call c m st =
     (case nonempty_string (c_method m) of
        None \<Rightarrow> (Inl (Error ''method argument to call must be string''), c_params m, st)
      | Some name \<Rightarrow>
          (if typeof (c_success m) \<noteq> TFunction
           then (Inl (Error ''success callback missing from call''), c_params m, st)
           else (case pruneFunctions [] [] (c_params m)
                        \<lparr>p_callbacks = [], p_callbackNames = [], p_seen = []\<rparr> of
                   (Inl e, params', ps) \<Rightarrow> (Inl e, params', st)
                 | (Inr u, params', ps) \<Rightarrow>
                     (let tid = s_curTranId st;
                          method = scopeMethod (cfg (chans st c)) name;
                          msg = empty_msg\<lparr>m_id := Some tid, m_method := Some method,
                                          m_params := params',
                                          m_callbacks := (if p_callbackNames ps \<noteq> []
                                                          then Some (p_callbackNames ps)
                                                          else None)\<rparr>;
                          st1 = (if truthy (c_timeout m)
                                 then st\<lparr>timers := timers st
                                           @ [TransactionTimeout c tid (c_timeout m) method]\<rparr>
                                 else st);
                          st2 = upd_chan c (\<lambda>ch. ch\<lparr>outTbl := (outTbl ch)(tid \<mapsto>
                                       \<lparr>o_callbacks = p_callbacks ps, o_error = c_error m,
                                        o_success = c_success m\<rparr>)\<rparr>) st1;
                          st3 = st2\<lparr>s_transIds := (s_transIds st2)(tid \<mapsto> c),
                                    s_curTranId := tid + 1\<rparr>
                      in (Inr (), params', postMessage c msg False st3)))))"

subsection \<open>destroy (lines 722-737)\<close>

text \<open>
  \<^verbatim>\<open>window.removeEventListener('message', s_onMessage, false)\<close> of line 725 (or
  \<^verbatim>\<open>detachEvent\<close>) takes the one listener of the page off the window.
\<close>

definition destroy :: "chan \<Rightarrow> pstate \<Rightarrow> unit result" where
  "destroy c st =
     (let ch = chans st c in
      case s_removeBoundChan (cfg_window (cfg ch)) (cfg_origin (cfg ch))
             (scope_or_empty (cfg ch)) (s_boundChans st) of
        Inl e \<Rightarrow> (Inl e, st)
      | Inr bc \<Rightarrow>
          (Inr (),
           upd_chan c (\<lambda>ch. ch\<lparr>ready := False, regTbl := Map.empty, inTbl := {},
                               outTbl := Map.empty, cfg := (cfg ch)\<lparr>cfg_origin := None\<rparr>,
                               pendingQueue := []\<rparr>)
             (st\<lparr>s_boundChans := bc, listening := False\<rparr>)))"

subsection \<open>build (lines 263-748)\<close>

text \<open>
  The checks of the browser (lines 279-284) and of the argument being an object (line
  287) are taken as passed. The match of line 306,
  \<^verbatim>\<open>/^https?:\/\/(?:[-a-zA-Z0-9_\.])+(?::\d+)?/\<close>: the text matched, if any.
\<close>

definition is_digit :: "char \<Rightarrow> bool" where
  "is_digit ch = (48 \<le> (of_char ch :: nat) \<and> (of_char ch :: nat) \<le> 57)"

definition is_host_char :: "char \<Rightarrow> bool" where
  "is_host_char ch =
     (let n = (of_char ch :: nat)
      in ch = CHR ''-'' \<or> ch = CHR ''_'' \<or> ch = CHR ''.'' \<or> (48 \<le> n \<and> n \<le> 57)
         \<or> (65 \<le> n \<and> n \<le> 90) \<or> (97 \<le> n \<and> n \<le> 122))"

definition match_host :: "string \<Rightarrow> string \<Rightarrow> string option" where
  "match_host scheme rest =
     (let host = takeWhile is_host_char rest; after = dropWhile is_host_char rest
      in if host = [] then None
         else (case after of
                 [] \<Rightarrow> Some (scheme @ host)
               | x # ds \<Rightarrow>
                   (if x = CHR '':'' \<and> takeWhile is_digit ds \<noteq> []
                    then Some (scheme @ host @ [x] @ takeWhile is_digit ds)
                    else Some (scheme @ host))))"

definition oMatch :: "string \<Rightarrow> string option" where
  "oMatch s =
     (if take 8 s = ''https://'' then match_host ''https://'' (drop 8 s)
      else if take 7 s = ''http://'' then match_host ''http://'' (drop 7 s)
      else None)"

definition toLowerCase :: "string \<Rightarrow> string" where
  "toLowerCase s =
     map (\<lambda>ch. if 65 \<le> (of_char ch :: nat) \<and> (of_char ch :: nat) \<le> 90
                then char_of ((of_char ch :: nat) + 32) else ch) s"

text \<open>Lines 304-319: the origin the channel is built with, or none when it is invalid.\<close>

definition valid_origin :: "jsval \<Rightarrow> string option" where
  "valid_origin origin =
     (case origin of
        JStr s \<Rightarrow>
          (if s = ''*'' then Some s
           else (case oMatch s of Some x \<Rightarrow> Some (toLowerCase x) | None \<Rightarrow> None))
      | _ \<Rightarrow> None)"

text \<open>
  The argument of \<^verbatim>\<open>build\<close>. \<open>b_window = None\<close> is a missing window or one without
  \<^verbatim>\<open>postMessage\<close>; \<open>b_child\<close> is \<^verbatim>\<open>cfg.type === 'child'\<close>.
\<close>

record build_cfg =
  b_window :: "win option"
  b_origin :: jsval
  b_scope :: jsval
  b_child :: bool
  b_gotMessageObserver :: bool
  b_postMessageObserver :: bool
  b_onReady :: bool

definition scope_ok :: "jsval \<Rightarrow> jsval + string option" where
  "scope_ok sc =
     (if typeof sc = TUndefined then Inr None
      else (case sc of
              JStr s \<Rightarrow>
                (if length (js_split ''::'' s) > 1
                 then Inl (Error ''scope may not contain double colons'')
                 else Inr (Some s))
            | _ \<Rightarrow> Inl (Error ''scope, when specified, must be a string'')))"

definition build :: "build_cfg \<Rightarrow> pstate \<Rightarrow> chan result" where
  "build b st =
     (case b_window b of
        None \<Rightarrow> (Inl (Error ''Channel.build() called without a valid window argument''), st)
      | Some w \<Rightarrow>
          (if w = this_window
           then (Inl (Error ''target window is same as present window -- not allowed''), st)
           else (case valid_origin (b_origin b) of
                   None \<Rightarrow> (Inl (Error ''Channel.build() called with an invalid origin''), st)
                 | Some origin \<Rightarrow>
                     (case scope_ok (b_scope b) of
                        Inl e \<Rightarrow> (Inl e, st)
                      | Inr sc \<Rightarrow>
                          (let c = nchans st;
                               cf = \<lparr>cfg_window = w, cfg_origin = Some origin, cfg_scope = sc,
                                     cfg_child = b_child b,
                                     cfg_gotMessageObserver = b_gotMessageObserver b,
                                     cfg_postMessageObserver = b_postMessageObserver b,
                                     cfg_onReady = b_onReady b\<rparr>
                           in case s_addBoundChan w origin (scope_or_empty cf) c (s_boundChans st) of
                                Inl e \<Rightarrow> (Inl e, st)
                              | Inr bc \<Rightarrow>
                                  (Inr c,
                                   st\<lparr>s_boundChans := bc, nchans := Suc c,
                                      chans := (chans st)(c := unbuilt\<lparr>cfg := cf,
                                                  regTbl := [''__ready'' \<mapsto> OnReady]\<rparr>),
                                      timers := timers st
                                        @ (if b_child b then [ReadyPing c] else [])\<rparr>))))))"

section \<open>Routing inbound messages (lines 154-228)\<close>

text \<open>
  The loops of lines 199-205 and 209-214: the handler of the first entry whose window is
  the source of the message.
\<close>

fun find_win :: "win \<Rightarrow> binding list \<Rightarrow> chan option" where
  "find_win w [] = None"
| "find_win w (j # arr) = (if fst j = w then Some (snd j) else find_win w arr)"

definition bound_handler :: "boundChans \<Rightarrow> string \<Rightarrow> string \<Rightarrow> win \<Rightarrow> chan option" where
  "bound_handler bc origin scope w =
     (case map_of bc origin of
        None \<Rightarrow> None
      | Some tbl \<Rightarrow> (case tbl scope of None \<Rightarrow> None | Some arr \<Rightarrow> find_win w arr))"

text \<open>
  Lines 172-180. The scope \<^verbatim>\<open>s\<close> stays \<^verbatim>\<open>undefined\<close> unless the method splits in
  two at \<^verbatim>\<open>::\<close>; as a property key (lines 198, 208) that is the string
  \<^verbatim>\<open>undefined\<close>.
\<close>

definition split_method :: "string \<Rightarrow> string option \<times> string" where
  "split_method method =
     (let ar = js_split ''::'' method
      in if length ar = 2 then (Some (ar ! 0), ar ! 1) else (None, method))"

definition scope_key :: "string option \<Rightarrow> string" where
  "scope_key s = (case s of None \<Rightarrow> ''undefined'' | Some x \<Rightarrow> x)"

text \<open>
  \<^verbatim>\<open>s_onMessage\<close>: \<open>dat\<close> is \<^verbatim>\<open>JSON.parse(e.data)\<close> when that is an object (else
  \<open>None\<close>, lines 156-164), \<open>w\<close> is \<^verbatim>\<open>e.source\<close> and \<open>origin\<close> is \<^verbatim>\<open>e.origin\<close>.
\<close>

definition s_onMessage :: "msg option \<Rightarrow> win \<Rightarrow> string \<Rightarrow> pstate \<Rightarrow> unit result option" where
  "s_onMessage dat w origin st =
     (case dat of
        None \<Rightarrow> Some (Inr (), st)
      | Some m \<Rightarrow>
          (case m_method m of
             Some method \<Rightarrow>
               (let s = scope_key (fst (split_method method)); meth = snd (split_method method)
                in case bound_handler (s_boundChans st) origin s w of
                     Some c \<Rightarrow> onMessage c origin (Some meth) m st
                   | None \<Rightarrow>
                       (case bound_handler (s_boundChans st) ''*'' s w of
                          Some c \<Rightarrow> onMessage c origin (Some meth) m st
                        | None \<Rightarrow> Some (Inr (), st)))
           | None \<Rightarrow>
               (case m_id m of
                  None \<Rightarrow> Some (Inr (), st)
                | Some i \<Rightarrow>
                    (case s_transIds st i of
                       Some c \<Rightarrow> onMessage c origin None m st
                     | None \<Rightarrow> Some (Inr (), st)))))"

text \<open>
  A message event on the window reaches \<^verbatim>\<open>s_onMessage\<close> while it is attached
  (lines 224-228).
\<close>

definition deliver :: "msg option \<Rightarrow> win \<Rightarrow> string \<Rightarrow> pstate \<Rightarrow> unit result option" where
  "deliver dat w origin st =
     (if listening st then s_onMessage dat w origin st else Some (Inr (), st))"

subsection \<open>Timers (lines 413-424 and 742-744)\<close>

text \<open>
  A timer that was set, when it fires. \<open>best_string\<close> is the text of a value inside a
  string concatenation (the timeout is truthy here, so it has one).
\<close>

definition best_string :: "jsval \<Rightarrow> string" where
  "best_string v = (case js_toString v of Inr s \<Rightarrow> s | Inl e \<Rightarrow> [])"

definition fire :: "timer \<Rightarrow> pstate \<Rightarrow> unit result" where
  "fire tm st =
     (case tm of
        ReadyPing c \<Rightarrow>
          (Inr (), postMessage c (empty_msg\<lparr>m_method := Some (scopeMethod (cfg (chans st c)) ''__ready''),
                                             m_params := JStr ''ping''\<rparr>) True st)
      | TransactionTimeout c transId timeout method \<Rightarrow>
          (case outTbl (chans st c) transId of
             None \<Rightarrow> (Inr (), st)
           | Some r \<Rightarrow>
               (if typeof (o_error r) \<noteq> TFunction
                then (Inl (TypeError ''outTbl[transId].error is not a function''), st)
                else (let st1 = emit (ErrorCalled c transId (JStr ''timeout_error'')
                                        (JStr (''timeout ('' @ best_string timeout
                                               @ ''ms) exceeded on method '' @ method))) st
                      in (Inr (), (upd_chan c (\<lambda>ch. ch\<lparr>outTbl := (outTbl ch)(transId := None)\<rparr>) st1)
                                     \<lparr>s_transIds := (s_transIds st1)(transId := None)\<rparr>)))))"

section \<open>Notions of the specification and the runs examined\<close>

subsection \<open>What is sent\<close>



text \<open>The notification of line 609.\<close>

definition pong :: "config \<Rightarrow> msg" where
  "pong cf = empty_msg\<lparr>m_method := Some (scopeMethod cf ''__ready''), m_params := JStr ''pong''\<rparr>"

text \<open>The state a delivery leaves (the state before, had it not returned) and what it shows.\<close>

definition state_of :: "unit result option \<Rightarrow> pstate \<Rightarrow> pstate" where
  "state_of r st = (case r of Some (x, st') \<Rightarrow> st' | None \<Rightarrow> st)"

definition outcome_of :: "unit result option \<Rightarrow> ((jsval + unit) \<times> event list) option" where
  "outcome_of r = map_option (\<lambda>x. (fst x, trace (snd x))) r"

subsection \<open>The error normalisation, in the words of the specification\<close>




subsection \<open>Function-valued leaves of a params tree\<close>


fun strip_functions :: "jsval \<Rightarrow> jsval"
  and strip_props :: "(string \<times> jsval) list \<Rightarrow> (string \<times> jsval) list"
  and strip_elems :: "jsval list \<Rightarrow> jsval list"
where
  "strip_functions (JObj ps) = JObj (strip_props ps)"
| "strip_functions (JArr xs) = JArr (strip_elems xs)"
| "strip_functions v = v"
| "strip_props [] = []"
| "strip_props ((k, v) # rest) =
     (if typeof v = TFunction then strip_props rest else (k, strip_functions v) # strip_props rest)"
| "strip_elems [] = []"
| "strip_elems (v # rest) =
     (if typeof v = TFunction then JUndefined else strip_functions v) # strip_elems rest"


text \<open>The leaves \<open>leaves\<close> were recorded, in order, between two states of \<^verbatim>\<open>pruneFunctions\<close>.\<close>

definition recorded :: "(string \<times> jsval) list \<Rightarrow> prune_st \<Rightarrow> prune_st \<Rightarrow> bool" where
  "recorded leaves ps ps' =
     (p_callbackNames ps' = p_callbackNames ps @ map fst leaves
      \<and> p_callbacks ps' = foldl (\<lambda>al (p, f). AList.update p f al) (p_callbacks ps) leaves)"

subsection \<open>Pages and messages of the runs\<close>

text \<open>
  Configurations of \<^verbatim>\<open>build\<close>: the remote window 1 with scope \<^verbatim>\<open>a\<close> and the origin
  \<^verbatim>\<open>*\<close> or \<^verbatim>\<open>http://x.com\<close>, and the remote window 2 with scope \<^verbatim>\<open>b\<close>.
\<close>

definition wildcard_cfg :: build_cfg where
  "wildcard_cfg = \<lparr>b_window = Some 1, b_origin = JStr ''*'', b_scope = JStr ''a'',
                    b_child = False, b_gotMessageObserver = False,
                    b_postMessageObserver = False, b_onReady = False\<rparr>"

definition plain_cfg :: build_cfg where
  "plain_cfg = \<lparr>b_window = Some 1, b_origin = JStr ''http://x.com'', b_scope = JStr ''a'',
                 b_child = False, b_gotMessageObserver = False,
                 b_postMessageObserver = False, b_onReady = False\<rparr>"

definition second_cfg :: build_cfg where
  "second_cfg = \<lparr>b_window = Some 2, b_origin = JStr ''http://y.com'', b_scope = JStr ''b'',
                  b_child = False, b_gotMessageObserver = False,
                  b_postMessageObserver = False, b_onReady = False\<rparr>"

text \<open>The bindings registered under an origin and a scope.\<close>

definition bucket :: "boundChans \<Rightarrow> string \<Rightarrow> string \<Rightarrow> binding list option" where
  "bucket bc origin scope = (case map_of bc origin of Some tbl \<Rightarrow> tbl scope | None \<Rightarrow> None)"

text \<open>A page on which one channel has just been built: instance 0, not ready.\<close>

definition fresh_chan :: pstate where
  "fresh_chan = snd (build plain_cfg (init (1/2)))"



text \<open>
  A page that serves the method \<^verbatim>\<open>m\<close> with a handler \<open>h\<close> on channel 0 and has
  received the peer's ping, so the channel is ready.
\<close>

definition ping_msg :: msg where
  "ping_msg = empty_msg\<lparr>m_method := Some ''a::__ready'', m_params := JStr ''ping''\<rparr>"

definition serving :: "handler \<Rightarrow> pstate" where
  "serving h =
     (let st = snd (bind 0 (JStr ''m'') h fresh_chan)
      in state_of (deliver (Some ping_msg) 1 ''http://x.com'' st) st)"

definition plain_request :: msg where
  "plain_request = empty_msg\<lparr>m_id := Some 7, m_method := Some ''a::m'',
                               m_params := JObj [(''n'', JNum 3)]\<rparr>"

text \<open>The same request with a callback declared at \<^verbatim>\<open>params.onProgress\<close>.\<close>

definition progress_request :: msg where
  "progress_request = plain_request\<lparr>m_callbacks := Some [''onProgress'']\<rparr>"


text \<open>
  A call on the fresh channel (it takes the id 500000), then \<^verbatim>\<open>destroy\<close>, then a response
  to the call.
\<close>

definition plain_call :: call_args where
  "plain_call = \<lparr>c_method = JStr ''m'', c_params = JObj [], c_success = JFun ''r => r'',
                  c_error = JUndefined, c_timeout = JUndefined\<rparr>"

definition called_page :: pstate where
  "called_page = snd (snd (call 0 plain_call fresh_chan))"

definition abandoned_page :: pstate where
  "abandoned_page = snd (destroy 0 called_page)"

definition late_response :: msg where
  "late_response = empty_msg\<lparr>m_id := Some 500000, m_result := JNum 1\<rparr>"

text \<open>
  Two channels on one page: instance 0 as before and instance 1 to window 2, which serves
  \<^verbatim>\<open>m\<close>; then instance 0 is destroyed. \<open>note_b\<close> is a notification for instance 1.
\<close>

definition two_chans :: pstate where
  "two_chans = snd (bind 1 (JStr ''m'') (User [] (Return JUndefined))
                      (snd (build second_cfg fresh_chan)))"

definition one_destroyed :: pstate where
  "one_destroyed = snd (destroy 0 two_chans)"

definition note_b :: msg where
  "note_b = empty_msg\<lparr>m_method := Some ''b::m'', m_params := JNum 1\<rparr>"





section \<open>Evaluating the runs\<close>

lemmas build_eval =
  build_def init_def valid_origin_def oMatch_def match_host_def is_host_char_def is_digit_def
  toLowerCase_def scope_ok_def js_split_def this_window_def s_addBoundChan_def chan_exists_def
  scope_or_empty_def bucket_hasWin_def unbuilt_def seed_curTranId_def Let_def


section \<open>The transaction id seed\<close>

text \<open>
  C9. The claim is that the seed is odd for every value of the random source in
  \<open>[0, 1)\<close>. Line 61 computes \<^verbatim>\<open>Math.floor(Math.random() * 1000001)\<close>: for the random
  values \<open>0\<close> and \<open>1/2\<close> (both in range, and the products are exact in floating point)
  the seed is \<open>0\<close> and \<open>500000\<close>, both even.
\<close>

theorem C9_seed_can_be_even:
  "seed_curTranId 0 = 0 \<and> seed_curTranId (1/2) = 500000
   \<and> even (seed_curTranId 0) \<and> even (seed_curTranId (1/2))"
  by (simp add: seed_curTranId_def)

section \<open>Registering a channel\<close>

text \<open>
  C2. The claim is that a registration fails whenever a live binding on the same window
  and scope has an overlapping origin, in particular when both origins are \<^verbatim>\<open>*\<close>. Built
  twice with the same window, scope \<^verbatim>\<open>a\<close> and origin \<^verbatim>\<open>*\<close>, the second \<^verbatim>\<open>build\<close>
  returns a channel (instance 1) and the table holds two bindings for the window: the loop
  of lines 86-99 skips the key \<^verbatim>\<open>*\<close> (line 90).
\<close>

theorem C2_second_wildcard_build_accepted:
  "fst (build wildcard_cfg (init (1/2))) = Inr 0
   \<and> fst (build wildcard_cfg (snd (build wildcard_cfg (init (1/2))))) = Inr 1
   \<and> bucket (s_boundChans (snd (build wildcard_cfg (snd (build wildcard_cfg (init (1/2)))))))
        ''*'' ''a'' = Some [(1, 0), (1, 1)]"
  by (simp add: wildcard_cfg_def build_eval bucket_def)

text \<open>The sibling cases do fail: one of the two origins is \<^verbatim>\<open>*\<close>, or both are equal.\<close>

lemma overlapping_builds_rejected:
  "isl (fst (build plain_cfg (snd (build wildcard_cfg (init (1/2))))))"
  "isl (fst (build wildcard_cfg (snd (build plain_cfg (init (1/2))))))"
  "isl (fst (build plain_cfg (snd (build plain_cfg (init (1/2))))))"
  by (simp_all add: wildcard_cfg_def plain_cfg_def build_eval)

text \<open>For a new origin \<^verbatim>\<open>*\<close> the bindings under the key \<^verbatim>\<open>*\<close> play no part.\<close>

lemma scan_origins_skips_wildcard:
  "scan_origins win scope bc = scan_origins win scope (filter (\<lambda>p. fst p \<noteq> ''*'') bc)"
  by (induction win scope bc rule: scan_origins.induct) (auto split: option.splits)

lemma wildcard_over_wildcard_accepted:
  "\<forall>p \<in> set bc. fst p = ''*'' \<Longrightarrow> \<exists>bc'. s_addBoundChan win ''*'' scope h bc = Inr bc'"
proof -
  assume "\<forall>p \<in> set bc. fst p = ''*''"
  then have "filter (\<lambda>p. fst p \<noteq> ''*'') bc = []"
    by (induction bc) auto
  then have "\<not> scan_origins win scope bc"
    using scan_origins_skips_wildcard [of win scope bc] by simp
  then show ?thesis
    by (simp add: s_addBoundChan_def chan_exists_def Let_def)
qed

section \<open>The pending queue\<close>


lemma postMessage_ready:
  "ready (chans st c) \<Longrightarrow>
   postMessage c m False st =
     st\<lparr>trace := trace st @ (if cfg_postMessageObserver (cfg (chans st c))
                              then [PostObserved (cfg_origin (cfg (chans st c))) m] else [])
                           @ [Posted (cfg_window (cfg (chans st c))) (cfg_origin (cfg (chans st c))) m]\<rparr>"
  by (simp add: postMessage_def emit_def Let_def)









section \<open>Callback stubs on the receiving side\<close>

lemma split_from_nonempty: "split_from sep cur s \<noteq> []"
  by (induction sep cur s rule: split_from.induct) auto

text \<open>
  With a callback declared, the installation of line 454 throws on the first path item,
  whatever the params are.
\<close>

lemma install_stubs_throws:
  "install_stubs tid cbs (i # rest) params =
     Inl (TypeError (hd (js_split ''/'' i) @ '' is not a function''))"
proof -
  obtain j js where s: "js_split ''/'' i = j # js"
    using split_from_nonempty [of "''/''" "[]" i]
    by (cases "js_split ''/'' i") (auto simp: js_split_def)
  show ?thesis
    by (simp add: install_stub_def s findIndex_of_string_def)
qed

text \<open>
  So a request that declares a callback is answered with the error response, whatever
  handler is bound.
\<close>

lemma handle_request_with_callbacks:
  assumes "callbacks_of m = i # rest"
  shows "handle_request c origin meth m tid h st =
           Some (Inr (), postMessage c (empty_msg\<lparr>m_id := Some tid, m_error := JStr ''runtime_error'',
                                                   m_message := JStr ''{}''\<rparr>) False
                           (upd_chan c (\<lambda>ch. ch\<lparr>inTbl := inTbl ch - {tid}\<rparr>)
                              (upd_chan c (\<lambda>ch. ch\<lparr>inTbl := insert tid (inTbl ch)\<rparr>) st)))"
proof -
  have n: "normalize_error (TypeError x) = Inr (JStr ''runtime_error'', JStr ''{}'')" for x
    by (simp add: normalize_error_def classify_error_def try_harder_def TypeError_def)
  have inst: "install_stubs tid (callbacks_of m) (callbacks_of m) (m_params m)
              = Inl (TypeError (hd (js_split ''/'' i) @ '' is not a function''))"
    unfolding assms by (rule install_stubs_throws)
  show ?thesis
    unfolding handle_request_def Let_def inst
    by (simp add: n trans_error_def Let_def createTransaction_def upd_chan_def)
qed

text \<open>
  C1. The claim is that a request whose params hold a function at path \<open>p\<close> reaches the
  bound handler with a callable stub at \<open>p\<close>. On a ready channel that serves \<^verbatim>\<open>m\<close>, the
  request \<^verbatim>\<open>{id: 7, method: "a::m", params: {n: 3}, callbacks: ["onProgress"]}\<close> never
  reaches the handler: line 454 calls \<^verbatim>\<open>findIndex\<close> with a string, the \<^verbatim>\<open>TypeError\<close>
  is caught at line 473, and the only message sent is the error response
  \<^verbatim>\<open>{id: 7, error: "runtime_error", message: "{}"}\<close>.
\<close>

theorem C1_request_with_callbacks_never_reaches_handler:
  "outcome_of (deliver (Some progress_request) 1 ''http://x.com''
                 (serving (User [] (Return (JStr ''done'')))))
   = Some (Inr (),
           [Posted 1 (Some ''http://x.com'') (pong (cfg (chans fresh_chan 0))),
            Posted 1 (Some ''http://x.com'')
              (empty_msg\<lparr>m_id := Some 7, m_error := JStr ''runtime_error'',
                         m_message := JStr ''{}''\<rparr>)])"
  by code_simp

text \<open>The same request without the callback is served.\<close>

lemma request_without_callbacks_served:
  "outcome_of (deliver (Some plain_request) 1 ''http://x.com''
                 (serving (User [] (Return (JStr ''done'')))))
   = Some (Inr (),
           [Posted 1 (Some ''http://x.com'') (pong (cfg (chans fresh_chan 0))),
            HandlerCalled 0 ''m'' (JObj [(''n'', JNum 3)]),
            Posted 1 (Some ''http://x.com'') (empty_msg\<lparr>m_id := Some 7, m_result := JStr ''done''\<rparr>)])"
  by code_simp

section \<open>Normalising what a handler threw\<close>

















section \<open>Completing a transaction\<close>


















section \<open>destroy\<close>

text \<open>\<^verbatim>\<open>destroy\<close> does not touch the transaction router, and detaches the listener.\<close>

lemma destroy_keeps_transIds: "s_transIds (snd (destroy c st)) = s_transIds st"
  by (simp add: destroy_def upd_chan_def Let_def split: sum.splits)

lemma destroy_detaches:
  "destroy c st = (Inr (), st') \<Longrightarrow> \<not> listening st'"
  by (auto simp: destroy_def upd_chan_def Let_def split: sum.splits)

lemma deliver_detached:
  "\<not> listening st \<Longrightarrow> deliver dat w origin st = Some (Inr (), st)"
  by (simp add: deliver_def)

text \<open>
  C3. The claim is that \<^verbatim>\<open>destroy()\<close> after a call that has had no response leaves no
  entry for the call's id in the transaction router. On the fresh channel the call takes
  the id 500000; after \<^verbatim>\<open>destroy()\<close> the channel's own table of outstanding calls is
  empty, but \<^verbatim>\<open>s_transIds\<close> still maps 500000 to the destroyed instance (lines 729-736
  reset the instance only, where lines 420-421 and 541-542 delete both entries). A
  response with that id is still routed to the instance, which ignores it.
\<close>

theorem C3_router_entry_survives_destroy:
  "fst (call 0 plain_call fresh_chan) = Inr ()
   \<and> fst (destroy 0 called_page) = Inr ()
   \<and> outTbl (chans abandoned_page 0) 500000 = None
   \<and> s_transIds abandoned_page 500000 = Some 0
   \<and> outcome_of (s_onMessage (Some late_response) 1 ''http://x.com'' abandoned_page)
       = Some (Inr (), trace abandoned_page)"
  by code_simp

text \<open>
  C4. The claim is that \<^verbatim>\<open>destroy()\<close> detaches the listener only when the last live
  channel goes, and that messages still reach the channels that remain. With two channels
  built, a notification for the second reaches its handler; after \<^verbatim>\<open>destroy()\<close> of the
  first, the second is still bound in \<^verbatim>\<open>s_boundChans\<close>, but the listener is detached
  (line 725 has no condition) and the same notification reaches no handler.
\<close>

theorem C4_destroy_detaches_shared_listener:
  "outcome_of (deliver (Some note_b) 2 ''http://y.com'' two_chans)
     = Some (Inr (), [HandlerCalled 1 ''m'' (JNum 1)])
   \<and> fst (destroy 0 two_chans) = Inr ()
   \<and> bucket (s_boundChans one_destroyed) ''http://y.com'' ''b'' = Some [(2, 1)]
   \<and> listening one_destroyed = False
   \<and> outcome_of (deliver (Some note_b) 2 ''http://y.com'' one_destroyed) = Some (Inr (), [])"
  by code_simp

text \<open>
  C8, as amended. No origin is registered under the key \<^verbatim>\<open>null\<close> (\<^verbatim>\<open>build\<close> takes
  \<^verbatim>\<open>*\<close> or an \<^verbatim>\<open>http(s)\<close> origin only). Then, after a \<^verbatim>\<open>destroy()\<close> that returned, a
  second \<^verbatim>\<open>destroy()\<close> on the same instance throws a \<^verbatim>\<open>TypeError\<close> (line 723 looks the
  binding up under the origin that line 733 set to \<^verbatim>\<open>null\<close>) and leaves the whole state
  of the page as it was: the registry and the transaction tables are not touched.
\<close>

theorem C8_second_destroy_throws_without_effect:
  assumes "map_of (s_boundChans st) ''null'' = None"
    and "destroy c st = (Inr (), st')"
  shows "destroy c st' = (Inl (TypeError ''Cannot read properties of undefined''), st')"
proof -
  let ?ch = "chans st c"
  obtain bc where rm: "s_removeBoundChan (cfg_window (cfg ?ch)) (cfg_origin (cfg ?ch))
                         (scope_or_empty (cfg ?ch)) (s_boundChans st) = Inr bc"
    using assms(2)
    by (cases "s_removeBoundChan (cfg_window (cfg ?ch)) (cfg_origin (cfg ?ch))
                 (scope_or_empty (cfg ?ch)) (s_boundChans st)")
       (auto simp: destroy_def Let_def)
  have st': "st' = upd_chan c (\<lambda>ch. ch\<lparr>ready := False, regTbl := Map.empty, inTbl := {},
                               outTbl := Map.empty, cfg := (cfg ch)\<lparr>cfg_origin := None\<rparr>,
                               pendingQueue := []\<rparr>)
             (st\<lparr>s_boundChans := bc, listening := False\<rparr>)"
    using assms(2) rm by (simp add: destroy_def Let_def)
  have key: "map_of (s_boundChans st) (origin_key (cfg_origin (cfg ?ch))) \<noteq> None"
    using rm by (auto simp: s_removeBoundChan_def split: option.splits)
  then have ne: "origin_key (cfg_origin (cfg ?ch)) \<noteq> ''null''"
    using assms(1) by auto
  have "map_of bc ''null'' = None"
    using rm ne assms(1)
    by (auto simp: s_removeBoundChan_def update_conv' Let_def split: option.splits)
  then have "s_removeBoundChan (cfg_window (cfg (chans st' c))) (cfg_origin (cfg (chans st' c)))
               (scope_or_empty (cfg (chans st' c))) (s_boundChans st')
             = Inl (TypeError ''Cannot read properties of undefined'')"
    by (simp add: st' upd_chan_def s_removeBoundChan_def origin_key_def)
  then show ?thesis by (simp add: destroy_def Let_def)
qed

theorem C8_second_destroy_throws_without_effect_witness:
  "map_of (s_boundChans fresh_chan) ''null'' = None
   \<and> fst (destroy 0 fresh_chan) = Inr ()
   \<and> destroy 0 (snd (destroy 0 fresh_chan))
       = (Inl (TypeError ''Cannot read properties of undefined''), snd (destroy 0 fresh_chan))"
proof -
  have k: "map_of (s_boundChans fresh_chan) ''null'' = None"
    by code_simp
  have f: "fst (destroy 0 fresh_chan) = Inr ()"
    by code_simp
  then have d: "destroy 0 fresh_chan = (Inr (), snd (destroy 0 fresh_chan))"
    by (cases "destroy 0 fresh_chan") simp
  from C8_second_destroy_throws_without_effect [OF k d] k f show ?thesis by simp
qed

text \<open>
  Against the claim as stated: built, destroyed and destroyed again, the second
  \<^verbatim>\<open>destroy()\<close> raises an exception.
\<close>

theorem C8_second_destroy_counterexample:
  "fst (destroy 0 fresh_chan) = Inr ()
   \<and> fst (destroy 0 (snd (destroy 0 fresh_chan)))
       = Inl (JErr ''TypeError'' ''Cannot read properties of undefined'')"
  by code_simp

section \<open>Marshalling the functions of a call\<close>

lemma recorded_nil [simp]: "recorded [] ps (ps\<lparr>p_seen := s\<rparr>)" "recorded [] ps ps"
  by (simp_all add: recorded_def)

lemma recorded_seen [simp]: "recorded xs (ps\<lparr>p_seen := s\<rparr>) ps' = recorded xs ps ps'"
  by (simp add: recorded_def)




lemma typeof_strip [simp]: "typeof (strip_functions v) = typeof v"
  by (cases v) simp_all





end
